theory Spec2Isabelle
  imports Main "HOL-Library.Sublist"
begin

section \<open>js\_env: the watch filter, the event handler and the command triggers\<close>

text \<open>
  A shallow embedding of \<^verbatim>\<open>src/js_env.py\<close>. Python strings are \<open>string\<close>;
  \<^verbatim>\<open>s.endswith(t)\<close> is \<open>suffix t s\<close> and \<^verbatim>\<open>t in s\<close> is \<open>sublist t s\<close>
  (a contiguous occurrence). Whatever the program takes from outside (the regular
  expression engine, \<^verbatim>\<open>shlex.split\<close>, the file system, the exit status of a child
  process, the parsed configuration file) is a parameter of the function that uses it.
  An exception is a value of \<open>error\<close>.
\<close>

subsection \<open>Errors\<close>

datatype error =
    AssertionError
  | KeyError string
  | ReError string
  | ValueError string

subsection \<open>Configuration\<close>

text \<open>
  \<open>conf\<close> is the \<^verbatim>\<open>ConfigParser\<close> after \<^verbatim>\<open>read('.js_env_config')\<close>, seen through the
  mapping protocol the class uses: \<open>conf c s = None\<close> when \<^verbatim>\<open>s in self._conf\<close> is
  false, and for a section \<open>sec\<close>, \<open>sec k\<close> is the value \<^verbatim>\<open>self._conf[s][k]\<close> returns,
  \<open>None\<close> when \<^verbatim>\<open>k in self._conf[s]\<close> is false. The other five fields are the rule
  lists of the watch filter.
\<close>

record Configuration =
  conf :: "string \<rightharpoonup> (string \<rightharpoonup> string)"
  excluded_regex :: "string list"
  excluded_extensions :: "string list"
  included_extensions :: "string list"
  excluded_files :: "string list"
  excluded_folders :: "string list"

definition commands :: "string list" where
  "commands = [''build'', ''serve'', ''start'', ''test'']"

text \<open>\<^verbatim>\<open>Configuration.__init__\<close>: the three assertions, in the order of the source.\<close>

definition Configuration_init :: "(string \<rightharpoonup> (string \<rightharpoonup> string)) \<Rightarrow> error + Configuration" where
  "Configuration_init parsed =
     (case parsed ''commands'' of
        None \<Rightarrow> Inl AssertionError
      | Some sec \<Rightarrow>
          (case parsed ''server'' of
             None \<Rightarrow> Inl AssertionError
           | Some _ \<Rightarrow>
               if list_all (\<lambda>c. sec c \<noteq> None) commands
               then Inr \<lparr>conf = parsed,
                         excluded_regex = [],
                         excluded_extensions = [],
                         included_extensions = [],
                         excluded_files = [],
                         excluded_folders = [''node_modules'']\<rparr>
               else Inl AssertionError))"

text \<open>\<^verbatim>\<open>self._conf[section][key]\<close>: a missing section or key raises \<^verbatim>\<open>KeyError\<close>.\<close>

definition conf_get :: "Configuration \<Rightarrow> string \<Rightarrow> string \<Rightarrow> error + string" where
  "conf_get config section key =
     (case conf config section of
        None \<Rightarrow> Inl (KeyError section)
      | Some sec \<Rightarrow> (case sec key of None \<Rightarrow> Inl (KeyError key) | Some v \<Rightarrow> Inr v))"

definition server_port :: "Configuration \<Rightarrow> error + string" where
  "server_port config = conf_get config ''server'' ''port''"

definition build_command :: "Configuration \<Rightarrow> error + string" where
  "build_command config = conf_get config ''commands'' ''build''"

definition test_command :: "Configuration \<Rightarrow> error + string" where
  "test_command config = conf_get config ''commands'' ''test''"

definition run_command :: "Configuration \<Rightarrow> error + string" where
  "run_command config = conf_get config ''commands'' ''run''"

definition start_command :: "Configuration \<Rightarrow> error + string" where
  "start_command config = conf_get config ''commands'' ''start''"

definition serve_command :: "Configuration \<Rightarrow> error + string" where
  "serve_command config = conf_get config ''commands'' ''serve''"

definition set_included_extensions :: "string list \<Rightarrow> Configuration \<Rightarrow> Configuration" where
  "set_included_extensions included_file_extensions config =
     config\<lparr>included_extensions := included_file_extensions\<rparr>"

definition set_excluded_extensions :: "string list \<Rightarrow> Configuration \<Rightarrow> Configuration" where
  "set_excluded_extensions excluded_file_extensions config =
     config\<lparr>excluded_extensions := excluded_file_extensions\<rparr>"

definition set_excluded_regex :: "string list \<Rightarrow> Configuration \<Rightarrow> Configuration" where
  "set_excluded_regex excluded_filters config = config\<lparr>excluded_regex := excluded_filters\<rparr>"

definition set_excluded_files :: "string list \<Rightarrow> Configuration \<Rightarrow> Configuration" where
  "set_excluded_files files config = config\<lparr>excluded_files := files\<rparr>"

definition set_excluded_folders :: "string list \<Rightarrow> Configuration \<Rightarrow> Configuration" where
  "set_excluded_folders folders config = config\<lparr>excluded_folders := folders\<rparr>"

subsection \<open>\<^verbatim>\<open>Configuration.is_watched\<close>\<close>

text \<open>
  The five loops of \<^verbatim>\<open>is_watched\<close>, each threading the local \<^verbatim>\<open>watched\<close>. The folder
  loop and the file loop run the same test, \<^verbatim>\<open>x in filepath\<close>.

  \<open>re_findall regex filepath\<close> stands for \<^verbatim>\<open>re.findall(regex, filepath)\<close>: \<open>None\<close> when
  the pattern does not compile (\<^verbatim>\<open>re.error\<close>), otherwise the list of matches, which
  the source tests for being non-empty.
\<close>

fun included_loop :: "string list \<Rightarrow> string \<Rightarrow> bool \<Rightarrow> bool" where
  "included_loop [] filepath watched = watched"
| "included_loop (ext # exts) filepath watched =
     included_loop exts filepath (if suffix ext filepath then True else watched)"

fun excluded_ext_loop :: "string list \<Rightarrow> string \<Rightarrow> bool \<Rightarrow> bool" where
  "excluded_ext_loop [] filepath watched = watched"
| "excluded_ext_loop (ext # exts) filepath watched =
     excluded_ext_loop exts filepath (if suffix ext filepath then False else watched)"

fun excluded_in_loop :: "string list \<Rightarrow> string \<Rightarrow> bool \<Rightarrow> bool" where
  "excluded_in_loop [] filepath watched = watched"
| "excluded_in_loop (x # xs) filepath watched =
     excluded_in_loop xs filepath (if sublist x filepath then False else watched)"

fun excluded_regex_loop ::
  "(string \<Rightarrow> string \<Rightarrow> 'm list option) \<Rightarrow> string list \<Rightarrow> string \<Rightarrow> bool \<Rightarrow> error + bool" where
  "excluded_regex_loop re_findall [] filepath watched = Inr watched"
| "excluded_regex_loop re_findall (regex # regexes) filepath watched =
     (case re_findall regex filepath of
        None \<Rightarrow> Inl (ReError regex)
      | Some ms \<Rightarrow>
          excluded_regex_loop re_findall regexes filepath (if ms \<noteq> [] then False else watched))"

definition is_watched ::
  "(string \<Rightarrow> string \<Rightarrow> 'm list option) \<Rightarrow> Configuration \<Rightarrow> string \<Rightarrow> error + bool" where
  "is_watched re_findall config filepath =
     (let watched = False;
          watched = included_loop (included_extensions config) filepath watched;
          watched = excluded_ext_loop (excluded_extensions config) filepath watched;
          watched = excluded_in_loop (excluded_folders config) filepath watched;
          watched = excluded_in_loop (excluded_files config) filepath watched
      in excluded_regex_loop re_findall (excluded_regex config) filepath watched)"

text \<open>
  A regular expression engine for concrete inputs: for a pattern made of ordinary
  characters only (such as the defaults \<^verbatim>\<open>#\<close> and \<^verbatim>\<open>~\<close> of \<^verbatim>\<open>--exclude-filters\<close>)
  \<^verbatim>\<open>re.findall\<close> finds a match exactly when the pattern occurs in the string.
\<close>

definition findall_literal :: "string \<Rightarrow> string \<Rightarrow> string list option" where
  "findall_literal regex s = Some (if sublist regex s then [regex] else [])"

subsection \<open>Printing and child processes\<close>

text \<open>
  What the program does to the outside is recorded in a \<open>world\<close>: the lines it prints
  and the child processes it starts, both in order. \<^verbatim>\<open>subprocess.run(cmd, shell=True)\<close>
  is given a string by \<^verbatim>\<open>build\<close> and \<^verbatim>\<open>serve\<close> and a list by the other three;
  \<open>returncode\<close> is the exit status of the child, which \<^verbatim>\<open>subprocess.run\<close> returns in
  its \<^verbatim>\<open>CompletedProcess\<close> without raising (no \<^verbatim>\<open>check=True\<close>).
\<close>

datatype spawn = Shell string | ShellArgs "string list"

record world =
  stdout :: "string list"
  spawned :: "spawn list"

definition print_line :: "string \<Rightarrow> world \<Rightarrow> world" where
  "print_line s w = w\<lparr>stdout := stdout w @ [s]\<rparr>"

definition subprocess_run :: "(spawn \<Rightarrow> int) \<Rightarrow> spawn \<Rightarrow> world \<Rightarrow> int \<times> world" where
  "subprocess_run returncode args w = (returncode args, w\<lparr>spawned := spawned w @ [args]\<rparr>)"

subsection \<open>The five commands\<close>

text \<open>
  \<open>shlex_split s\<close> stands for \<^verbatim>\<open>shlex.split(s)\<close>, \<open>None\<close> when it raises \<^verbatim>\<open>ValueError\<close>
  (an unclosed quotation). Each function returns its label, or the exception raised,
  with the world it leaves. The \<^verbatim>\<open>CompletedProcess\<close> is dropped by all five.
\<close>

definition build :: "(spawn \<Rightarrow> int) \<Rightarrow> Configuration \<Rightarrow> world \<Rightarrow> (error + string) \<times> world" where
  "build returncode config w =
     (case build_command config of
        Inl e \<Rightarrow> (Inl e, w)
      | Inr cmd \<Rightarrow>
          let w = print_line (''Running build '' @ cmd) w;
              w = (if cmd \<noteq> [] then snd (subprocess_run returncode (Shell cmd) w) else w)
          in (Inr ''Building'', w))"

definition test ::
  "(string \<Rightarrow> string list option) \<Rightarrow> (spawn \<Rightarrow> int) \<Rightarrow> Configuration \<Rightarrow> world
     \<Rightarrow> (error + string) \<times> world" where
  \<open>test shlex_split returncode config w =
     (let w = print_line ''Running "test"'' w in
      case test_command config of
        Inl e \<Rightarrow> (Inl e, w)
      | Inr cmd \<Rightarrow>
          if cmd \<noteq> [] then
            (case shlex_split cmd of
               None \<Rightarrow> (Inl (ValueError cmd), w)
             | Some args \<Rightarrow> (Inr ''Testing'', snd (subprocess_run returncode (ShellArgs args) w)))
          else (Inr ''Testing'', w))\<close>

definition start ::
  "(string \<Rightarrow> string list option) \<Rightarrow> (spawn \<Rightarrow> int) \<Rightarrow> Configuration \<Rightarrow> world
     \<Rightarrow> (error + string) \<times> world" where
  \<open>start shlex_split returncode config w =
     (let w = print_line ''Running "start"'' w in
      case start_command config of
        Inl e \<Rightarrow> (Inl e, w)
      | Inr cmd \<Rightarrow>
          if cmd \<noteq> [] then
            (case shlex_split cmd of
               None \<Rightarrow> (Inl (ValueError cmd), w)
             | Some args \<Rightarrow> (Inr ''Starting'', snd (subprocess_run returncode (ShellArgs args) w)))
          else (Inr ''Starting'', w))\<close>

definition run ::
  "(string \<Rightarrow> string list option) \<Rightarrow> (spawn \<Rightarrow> int) \<Rightarrow> Configuration \<Rightarrow> world
     \<Rightarrow> (error + string) \<times> world" where
  \<open>run shlex_split returncode config w =
     (let w = print_line ''Running "run"'' w in
      case run_command config of
        Inl e \<Rightarrow> (Inl e, w)
      | Inr cmd \<Rightarrow>
          if cmd \<noteq> [] then
            (case shlex_split cmd of
               None \<Rightarrow> (Inl (ValueError cmd), w)
             | Some args \<Rightarrow> (Inr ''Running'', snd (subprocess_run returncode (ShellArgs args) w)))
          else (Inr ''Running'', w))\<close>

text \<open>\<^verbatim>\<open>serve\<close> tests \<^verbatim>\<open>config.run_command\<close> and runs \<^verbatim>\<open>config.serve_command\<close>.\<close>

definition serve :: "(spawn \<Rightarrow> int) \<Rightarrow> Configuration \<Rightarrow> world \<Rightarrow> (error + string) \<times> world" where
  \<open>serve returncode config w =
     (let w = print_line ''Running "serve"'' w in
      case run_command config of
        Inl e \<Rightarrow> (Inl e, w)
      | Inr guard \<Rightarrow>
          if guard \<noteq> [] then
            (case serve_command config of
               Inl e \<Rightarrow> (Inl e, w)
             | Inr cmd \<Rightarrow> (Inr ''Serving'', snd (subprocess_run returncode (Shell cmd) w)))
          else (Inr ''Serving'', w))\<close>

text \<open>
  The routes of \<^verbatim>\<open>main\<close>: \<^verbatim>\<open>/build\<close>, \<^verbatim>\<open>/test\<close>, \<^verbatim>\<open>/run\<close>, \<^verbatim>\<open>/start\<close> and \<^verbatim>\<open>/serve\<close> each
  return what the function of that name returns.
\<close>

datatype action = Build | Test | Run | Start | Serve

fun trigger ::
  "(string \<Rightarrow> string list option) \<Rightarrow> (spawn \<Rightarrow> int) \<Rightarrow> Configuration \<Rightarrow> action \<Rightarrow> world
     \<Rightarrow> (error + string) \<times> world" where
  "trigger shlex_split returncode config Build w = build returncode config w"
| "trigger shlex_split returncode config Test w = test shlex_split returncode config w"
| "trigger shlex_split returncode config Run w = run shlex_split returncode config w"
| "trigger shlex_split returncode config Start w = start shlex_split returncode config w"
| "trigger shlex_split returncode config Serve w = serve returncode config w"

subsection \<open>\<^verbatim>\<open>ChangeHandler\<close>\<close>

text \<open>
  \<^verbatim>\<open>str.replace(old, new)\<close>: every occurrence of \<open>old\<close>, found from the left and not
  overlapping, is replaced; an empty \<open>old\<close> matches before every character and at the end.
\<close>

fun replace :: "string \<Rightarrow> string \<Rightarrow> string \<Rightarrow> string" where
  "replace old new [] = (if old = [] then new else [])"
| "replace old new (c # cs) =
     (if old = [] then new @ c # replace old new cs
      else if prefix old (c # cs) then new @ replace old new (drop (length old) (c # cs))
      else c # replace old new cs)"

text \<open>
  The three statements of \<^verbatim>\<open>_build_if_watched\<close> that turn the path of an event into the
  path \<^verbatim>\<open>is_watched\<close> is given: \<^verbatim>\<open>pwd = os.path.abspath(self.root) + '/'\<close>,
  \<^verbatim>\<open>assert pwd in filepath\<close> and \<^verbatim>\<open>filepath.replace(pwd, '')\<close>. \<open>absroot\<close> is
  \<^verbatim>\<open>os.path.abspath(self.root)\<close>.
\<close>

definition normalize_path :: "string \<Rightarrow> string \<Rightarrow> error + string" where
  "normalize_path absroot filepath =
     (let pwd = absroot @ ''/'' in
      if sublist pwd filepath then Inr (replace pwd [] filepath) else Inl AssertionError)"

text \<open>
  \<^verbatim>\<open>_build_if_watched\<close>. \<open>isfile\<close> is \<^verbatim>\<open>os.path.isfile\<close> at the time of the call. The
  label \<^verbatim>\<open>build()\<close> returns is dropped.
\<close>

definition build_if_watched ::
  "(string \<Rightarrow> bool) \<Rightarrow> string \<Rightarrow> (string \<Rightarrow> string \<Rightarrow> 'm list option) \<Rightarrow> (spawn \<Rightarrow> int)
     \<Rightarrow> Configuration \<Rightarrow> string \<Rightarrow> world \<Rightarrow> (error + unit) \<times> world" where
  "build_if_watched isfile absroot re_findall returncode config filepath w =
     (if isfile filepath then
        (case normalize_path absroot filepath of
           Inl e \<Rightarrow> (Inl e, w)
         | Inr filepath \<Rightarrow>
             (case is_watched re_findall config filepath of
                Inl e \<Rightarrow> (Inl e, w)
              | Inr watched \<Rightarrow>
                  if watched then
                    (let w = print_line (''file '' @ filepath @ '' is watched'') w in
                     case build returncode config w of
                       (Inl e, w) \<Rightarrow> (Inl e, w)
                     | (Inr _, w) \<Rightarrow> (Inr (), w))
                  else (Inr (), w)))
      else (Inr (), w))"

definition on_created ::
  "(string \<Rightarrow> bool) \<Rightarrow> string \<Rightarrow> (string \<Rightarrow> string \<Rightarrow> 'm list option) \<Rightarrow> (spawn \<Rightarrow> int)
     \<Rightarrow> Configuration \<Rightarrow> string \<Rightarrow> world \<Rightarrow> (error + unit) \<times> world" where
  "on_created isfile absroot re_findall returncode config src_path w =
     build_if_watched isfile absroot re_findall returncode config src_path
       (print_line (''file '' @ src_path @ '' created'') w)"

definition on_modified ::
  "(string \<Rightarrow> bool) \<Rightarrow> string \<Rightarrow> (string \<Rightarrow> string \<Rightarrow> 'm list option) \<Rightarrow> (spawn \<Rightarrow> int)
     \<Rightarrow> Configuration \<Rightarrow> string \<Rightarrow> world \<Rightarrow> (error + unit) \<times> world" where
  "on_modified isfile absroot re_findall returncode config src_path w =
     build_if_watched isfile absroot re_findall returncode config src_path
       (print_line (''file '' @ src_path @ '' modified'') w)"

definition on_deleted ::
  "(string \<Rightarrow> bool) \<Rightarrow> string \<Rightarrow> (string \<Rightarrow> string \<Rightarrow> 'm list option) \<Rightarrow> (spawn \<Rightarrow> int)
     \<Rightarrow> Configuration \<Rightarrow> string \<Rightarrow> world \<Rightarrow> (error + unit) \<times> world" where
  "on_deleted isfile absroot re_findall returncode config src_path w =
     build_if_watched isfile absroot re_findall returncode config src_path
       (print_line (''file '' @ src_path @ '' deleted'') w)"

subsection \<open>Concrete inputs\<close>

text \<open>
  \<^verbatim>\<open>shlex.split\<close> on a command made of words separated by blanks, with no quote, no
  backslash and no other white space: the words, in order.
\<close>

fun words_acc :: "string \<Rightarrow> string \<Rightarrow> string list" where
  "words_acc acc [] = (if acc = [] then [] else [acc])"
| "words_acc acc (c # cs) =
     (if c = CHR '' '' then (if acc = [] then words_acc [] cs else acc # words_acc [] cs)
      else words_acc (acc @ [c]) cs)"

definition shlex_plain :: "string \<Rightarrow> string list option" where
  "shlex_plain s = Some (words_acc [] s)"

text \<open>
  A \<^verbatim>\<open>.js_env_config\<close> with the five commands, the serve command left empty, and the
  configuration \<^verbatim>\<open>parse_options\<close> makes of it with its default patterns \<^verbatim>\<open>#\<close> and \<^verbatim>\<open>~\<close>.
\<close>

definition example_parsed :: "string \<rightharpoonup> (string \<rightharpoonup> string)" where
  "example_parsed =
     [''commands'' \<mapsto>
        [''build'' \<mapsto> ''npm run build'', ''test'' \<mapsto> ''npm test'', ''run'' \<mapsto> ''node index.js'',
         ''start'' \<mapsto> ''npm start'', ''serve'' \<mapsto> ''''],
      ''server'' \<mapsto> [''port'' \<mapsto> ''5000'']]"

definition example_config :: Configuration where
  "example_config =
     \<lparr>conf = example_parsed, excluded_regex = [''#'', ''~''],
      excluded_extensions = [''.pdf'', ''.tex''],
      included_extensions = [''.css'', ''.html'', ''.js'', ''.jsx''], excluded_files = [],
      excluded_folders = [''node_modules'', ''build'']\<rparr>"

text \<open>A \<^verbatim>\<open>.js_env_config\<close> with both sections and every command but \<^verbatim>\<open>run\<close>.\<close>

definition parsed_without_run :: "string \<rightharpoonup> (string \<rightharpoonup> string)" where
  "parsed_without_run =
     [''commands'' \<mapsto>
        [''build'' \<mapsto> ''npm run build'', ''test'' \<mapsto> ''npm test'',
         ''start'' \<mapsto> ''npm start'', ''serve'' \<mapsto> ''npm run serve''],
      ''server'' \<mapsto> [''port'' \<mapsto> ''5000'']]"

section \<open>What the loops compute\<close>

lemma included_loop_iff:
  "included_loop exts p w \<longleftrightarrow> w \<or> (\<exists>ext \<in> set exts. suffix ext p)"
  by (induction exts arbitrary: w) auto

lemma excluded_ext_loop_iff:
  "excluded_ext_loop exts p w \<longleftrightarrow> w \<and> (\<forall>ext \<in> set exts. \<not> suffix ext p)"
  by (induction exts arbitrary: w) auto

lemma excluded_in_loop_iff:
  "excluded_in_loop xs p w \<longleftrightarrow> w \<and> (\<forall>x \<in> set xs. \<not> sublist x p)"
  by (induction xs arbitrary: w) auto

lemma excluded_regex_loop_Inr:
  "excluded_regex_loop f rs p w = Inr b \<longleftrightarrow>
     (\<forall>rx \<in> set rs. f rx p \<noteq> None) \<and> (b \<longleftrightarrow> w \<and> (\<forall>rx \<in> set rs. f rx p = Some []))"
proof (induction rs arbitrary: w)
  case Nil
  show ?case by auto
next
  case (Cons r rs)
  show ?case
  proof (cases "f r p")
    case None
    then show ?thesis by simp
  next
    case (Some ms)
    then show ?thesis using Cons.IH by (cases "ms = []") auto
  qed
qed

lemma is_watched_Inr:
  "is_watched f c p = Inr b \<longleftrightarrow>
     (\<forall>rx \<in> set (excluded_regex c). f rx p \<noteq> None) \<and>
     (b \<longleftrightarrow>
        (\<exists>ext \<in> set (included_extensions c). suffix ext p) \<and>
        (\<forall>ext \<in> set (excluded_extensions c). \<not> suffix ext p) \<and>
        (\<forall>x \<in> set (excluded_folders c). \<not> sublist x p) \<and>
        (\<forall>x \<in> set (excluded_files c). \<not> sublist x p) \<and>
        (\<forall>rx \<in> set (excluded_regex c). f rx p = Some []))"
  unfolding is_watched_def Let_def excluded_regex_loop_Inr
    excluded_in_loop_iff excluded_ext_loop_iff included_loop_iff
  by blast

text \<open>\<^verbatim>\<open>is_watched\<close> raises exactly when one of the excluded patterns does not compile.\<close>

lemma is_watched_Inl:
  "(\<exists>e. is_watched f c p = Inl e) \<longleftrightarrow> (\<exists>rx \<in> set (excluded_regex c). f rx p = None)"
proof (cases "is_watched f c p")
  case (Inl e)
  then have "\<And>b. is_watched f c p \<noteq> Inr b"
    by simp
  then have "\<not> (\<forall>rx \<in> set (excluded_regex c). f rx p \<noteq> None)"
    unfolding is_watched_Inr by blast
  with Inl show ?thesis by auto
next
  case (Inr b)
  then have "\<forall>rx \<in> set (excluded_regex c). f rx p \<noteq> None"
    unfolding is_watched_Inr by blast
  with Inr show ?thesis by auto
qed

section \<open>The watch filter\<close>

text \<open>
  C8. With \<^verbatim>\<open>.js\<close> the only included extension and \<^verbatim>\<open>node_modules\<close> the only excluded
  folder, every other rule list being empty, \<^verbatim>\<open>src/app.js\<close> is watched and
  \<^verbatim>\<open>node_modules/lib/app.js\<close> is not. No pattern is consulted, so this holds for every
  regular expression engine.
\<close>

theorem is_watched_js_node_modules:
  "is_watched re_findall
     \<lparr>conf = cf, excluded_regex = [], excluded_extensions = [],
      included_extensions = [''.js''], excluded_files = [],
      excluded_folders = [''node_modules'']\<rparr> ''src/app.js'' = Inr True
   \<and>
   is_watched re_findall
     \<lparr>conf = cf, excluded_regex = [], excluded_extensions = [],
      included_extensions = [''.js''], excluded_files = [],
      excluded_folders = [''node_modules'']\<rparr> ''node_modules/lib/app.js'' = Inr False"
  by (simp add: is_watched_def suffix_to_prefix sublist_Cons_right)

text \<open>
  C2. When the list of included extensions is empty, \<^verbatim>\<open>is_watched\<close> returns \<^verbatim>\<open>False\<close>
  for every path, whatever the four exclusion lists hold. The excluded patterns are
  regular expressions: each of them compiles.
\<close>

theorem is_watched_empty_included:
  assumes "included_extensions c = []"
    and "\<forall>rx \<in> set (excluded_regex c). re_findall rx p \<noteq> None"
  shows "is_watched re_findall c p = Inr False"
  using assms by (simp add: is_watched_Inr)

theorem is_watched_empty_included_witness:
  "is_watched findall_literal
     \<lparr>conf = Map.empty, excluded_regex = [''#'', ''~''], excluded_extensions = [''.pdf''],
      included_extensions = [], excluded_files = [],
      excluded_folders = [''node_modules'']\<rparr> ''src/app.js'' = Inr False"
  by (rule is_watched_empty_included) (simp_all add: findall_literal_def)

text \<open>
  C1. Exclusion dominates inclusion: a path that ends with an included extension and
  also ends with an excluded extension, or contains an excluded folder name or an
  excluded file name, or is matched by an excluded pattern, is not watched. The
  excluded patterns are regular expressions: each of them compiles.
\<close>

theorem is_watched_exclusion_dominates:
  assumes "\<exists>ext \<in> set (included_extensions c). suffix ext p"
    and "(\<exists>ext \<in> set (excluded_extensions c). suffix ext p) \<or>
         (\<exists>folder \<in> set (excluded_folders c). sublist folder p) \<or>
         (\<exists>fn \<in> set (excluded_files c). sublist fn p) \<or>
         (\<exists>rx \<in> set (excluded_regex c). \<exists>ms. re_findall rx p = Some ms \<and> ms \<noteq> [])"
    and "\<forall>rx \<in> set (excluded_regex c). re_findall rx p \<noteq> None"
  shows "is_watched re_findall c p = Inr False"
proof -
  from assms(2) have
    "\<not> ((\<forall>ext \<in> set (excluded_extensions c). \<not> suffix ext p) \<and>
        (\<forall>x \<in> set (excluded_folders c). \<not> sublist x p) \<and>
        (\<forall>x \<in> set (excluded_files c). \<not> sublist x p) \<and>
        (\<forall>rx \<in> set (excluded_regex c). re_findall rx p = Some []))"
    by fastforce
  with assms(3) show ?thesis
    unfolding is_watched_Inr by blast
qed

theorem is_watched_exclusion_dominates_witness:
  "suffix ''.js'' ''src/#app.js'' \<and>
   findall_literal ''#'' ''src/#app.js'' = Some [''#''] \<and>
   is_watched findall_literal
     \<lparr>conf = Map.empty, excluded_regex = [''#'', ''~''], excluded_extensions = [],
      included_extensions = [''.css'', ''.js''], excluded_files = [],
      excluded_folders = []\<rparr> ''src/#app.js'' = Inr False"
proof -
  let ?c = "\<lparr>conf = Map.empty, excluded_regex = [''#'', ''~''], excluded_extensions = [],
      included_extensions = [''.css'', ''.js''], excluded_files = [],
      excluded_folders = []\<rparr> :: Configuration"
  let ?p = "''src/#app.js''"
  have inc: "suffix ''.js'' ?p"
    by (simp add: suffix_to_prefix)
  have m: "findall_literal ''#'' ?p = Some [''#'']"
    by (simp add: findall_literal_def sublist_Cons_right)
  have "is_watched findall_literal ?c ?p = Inr False"
  proof (rule is_watched_exclusion_dominates)
    show "\<exists>ext \<in> set (included_extensions ?c). suffix ext ?p"
      using inc by simp
    show "(\<exists>ext \<in> set (excluded_extensions ?c). suffix ext ?p) \<or>
          (\<exists>folder \<in> set (excluded_folders ?c). sublist folder ?p) \<or>
          (\<exists>fn \<in> set (excluded_files ?c). sublist fn ?p) \<or>
          (\<exists>rx \<in> set (excluded_regex ?c). \<exists>ms. findall_literal rx ?p = Some ms \<and> ms \<noteq> [])"
      using m by simp
    show "\<forall>rx \<in> set (excluded_regex ?c). findall_literal rx ?p \<noteq> None"
      by (simp add: findall_literal_def)
  qed
  with inc m show ?thesis by simp
qed

text \<open>
  C10. \<^verbatim>\<open>is_watched\<close> is monotone in the rules. If \<open>r'\<close> has the rules of \<open>r\<close> and more
  included extensions, every path watched under \<open>r\<close> is watched under \<open>r'\<close>. If \<open>r'\<close> has
  the rules of \<open>r\<close> and more entries in any of the four exclusion lists, every path
  watched under \<open>r'\<close> is watched under \<open>r\<close>. Entries may be added anywhere in a list.
\<close>

theorem is_watched_monotone:
  "(set (included_extensions r) \<subseteq> set (included_extensions r') \<and>
    excluded_extensions r' = excluded_extensions r \<and>
    excluded_folders r' = excluded_folders r \<and>
    excluded_files r' = excluded_files r \<and>
    excluded_regex r' = excluded_regex r \<and>
    is_watched re_findall r p = Inr True
      \<longrightarrow> is_watched re_findall r' p = Inr True)
   \<and>
   (included_extensions s' = included_extensions s \<and>
    set (excluded_extensions s) \<subseteq> set (excluded_extensions s') \<and>
    set (excluded_folders s) \<subseteq> set (excluded_folders s') \<and>
    set (excluded_files s) \<subseteq> set (excluded_files s') \<and>
    set (excluded_regex s) \<subseteq> set (excluded_regex s') \<and>
    is_watched re_findall s' p = Inr True
      \<longrightarrow> is_watched re_findall s p = Inr True)"
proof (intro conjI impI)
  assume "set (included_extensions r) \<subseteq> set (included_extensions r') \<and>
    excluded_extensions r' = excluded_extensions r \<and>
    excluded_folders r' = excluded_folders r \<and>
    excluded_files r' = excluded_files r \<and>
    excluded_regex r' = excluded_regex r \<and>
    is_watched re_findall r p = Inr True"
  then show "is_watched re_findall r' p = Inr True"
    unfolding is_watched_Inr by auto
next
  assume "included_extensions s' = included_extensions s \<and>
    set (excluded_extensions s) \<subseteq> set (excluded_extensions s') \<and>
    set (excluded_folders s) \<subseteq> set (excluded_folders s') \<and>
    set (excluded_files s) \<subseteq> set (excluded_files s') \<and>
    set (excluded_regex s) \<subseteq> set (excluded_regex s') \<and>
    is_watched re_findall s' p = Inr True"
  then show "is_watched re_findall s p = Inr True"
    unfolding is_watched_Inr by auto
qed

theorem is_watched_monotone_witness:
  "is_watched findall_literal
     \<lparr>conf = Map.empty, excluded_regex = [''#''], excluded_extensions = [''.pdf''],
      included_extensions = [''.js''], excluded_files = [],
      excluded_folders = [''build'']\<rparr> ''src/app.js'' = Inr True
   \<and>
   is_watched findall_literal
     \<lparr>conf = Map.empty, excluded_regex = [''#''], excluded_extensions = [''.pdf''],
      included_extensions = [''.css'', ''.js'', ''.html''], excluded_files = [],
      excluded_folders = [''build'']\<rparr> ''src/app.js'' = Inr True
   \<and>
   is_watched findall_literal
     \<lparr>conf = Map.empty, excluded_regex = [''~'', ''#''], excluded_extensions = [''.pdf'', ''.tex''],
      included_extensions = [''.js''], excluded_files = [''Makefile''],
      excluded_folders = [''node_modules'', ''build'']\<rparr> ''src/app.js'' = Inr True"
proof -
  let ?r = "\<lparr>conf = Map.empty, excluded_regex = [''#''], excluded_extensions = [''.pdf''],
      included_extensions = [''.js''], excluded_files = [],
      excluded_folders = [''build'']\<rparr> :: Configuration"
  let ?r' = "\<lparr>conf = Map.empty, excluded_regex = [''#''], excluded_extensions = [''.pdf''],
      included_extensions = [''.css'', ''.js'', ''.html''], excluded_files = [],
      excluded_folders = [''build'']\<rparr> :: Configuration"
  let ?s' = "\<lparr>conf = Map.empty, excluded_regex = [''~'', ''#''],
      excluded_extensions = [''.pdf'', ''.tex''],
      included_extensions = [''.js''], excluded_files = [''Makefile''],
      excluded_folders = [''node_modules'', ''build'']\<rparr> :: Configuration"
  let ?p = "''src/app.js''"
  have s': "is_watched findall_literal ?s' ?p = Inr True"
    by (simp add: is_watched_def findall_literal_def suffix_to_prefix sublist_Cons_right)
  have r: "is_watched findall_literal ?r ?p = Inr True"
    using is_watched_monotone [of ?r ?r' findall_literal ?p ?s' ?r] s' by simp
  have r': "is_watched findall_literal ?r' ?p = Inr True"
    using is_watched_monotone [of ?r ?r' findall_literal ?p ?s' ?r] r by simp
  from r r' s' show ?thesis by simp
qed

section \<open>The path handed to the filter\<close>

lemma replace_prefix:
  assumes "old \<noteq> []"
  shows "replace old new (old @ s) = new @ replace old new s"
proof -
  obtain c cs where eq: "old @ s = c # cs"
    using assms by (cases old) auto
  have p: "prefix old (c # cs)"
    unfolding eq [symmetric] by simp
  have d: "drop (length old) (c # cs) = s"
    unfolding eq [symmetric] by simp
  have "replace old new (c # cs) = new @ replace old new (drop (length old) (c # cs))"
    using assms p by (simp only: replace.simps if_False if_True)
  then show ?thesis
    unfolding eq d .
qed

lemma replace_a_b_js: "replace (CHR ''/'' # r @ ''/'') new ''a/b.js'' = ''a/b.js''"
  by (auto dest: set_mono_prefix)

text \<open>
  Under an absolute root (one that starts with \<^verbatim>\<open>/\<close>) the path \<^verbatim>\<open>root + "/a/b.js"\<close>
  becomes \<^verbatim>\<open>a/b.js\<close>.
\<close>

lemma normalize_path_example:
  "normalize_path (CHR ''/'' # r) ((CHR ''/'' # r) @ ''/a/b.js'') = Inr ''a/b.js''"
proof -
  let ?pwd = "CHR ''/'' # r @ ''/''"
  have "(CHR ''/'' # r) @ ''/a/b.js'' = ?pwd @ ''a/b.js''"
    by simp
  moreover have "replace ?pwd [] (?pwd @ ''a/b.js'') = ''a/b.js''"
    using replace_prefix [of ?pwd "[]" "''a/b.js''"] replace_a_b_js [of r "[]"] by simp
  moreover have "sublist ?pwd (?pwd @ ''a/b.js'')"
    by (rule prefix_imp_sublist) simp
  ultimately show ?thesis
    by (simp add: normalize_path_def del: replace.simps)
qed

text \<open>The assertion fails exactly when \<^verbatim>\<open>root + "/"\<close> occurs nowhere in the path.\<close>

lemma normalize_path_fails_iff:
  "normalize_path absroot filepath = Inl AssertionError \<longleftrightarrow> \<not> sublist (absroot @ ''/'') filepath"
  by (simp add: normalize_path_def Let_def)

text \<open>\<^verbatim>\<open>/other/x\<close> is rejected under every absolute root that is not a prefix of it.\<close>

lemma normalize_path_other_x:
  assumes "\<not> prefix (CHR ''/'' # r) ''/other/x''"
  shows "normalize_path (CHR ''/'' # r) ''/other/x'' = Inl AssertionError"
  using assms
  by (auto simp: normalize_path_def sublist_Cons_right dest: set_mono_prefix append_prefixD)

text \<open>
  C3. The root and its separator are meant to be stripped from the front of the path of
  an event, and a path that is not under the root is meant to be rejected. The source
  tests \<^verbatim>\<open>pwd in filepath\<close> and calls \<^verbatim>\<open>filepath.replace(pwd, '')\<close>, so every occurrence
  of \<^verbatim>\<open>pwd\<close> goes, wherever it is. Under the root \<^verbatim>\<open>/app\<close> the file
  \<^verbatim>\<open>/app/vendor/app/main.js\<close> is handed to the filter as \<^verbatim>\<open>vendormain.js\<close>, not
  \<^verbatim>\<open>vendor/app/main.js\<close>; and \<^verbatim>\<open>/opt/app/x.js\<close>, which is not under the root, passes the
  assertion and becomes \<^verbatim>\<open>/optx.js\<close>.
\<close>

theorem normalize_path_removes_inner_occurrences:
  "normalize_path ''/app'' ''/app/vendor/app/main.js'' = Inr ''vendormain.js'' \<and>
   normalize_path ''/app'' ''/opt/app/x.js'' = Inr ''/optx.js''"
  by (simp add: normalize_path_def sublist_Cons_right)

section \<open>Events\<close>

lemma build_if_watched_not_file:
  "\<not> isfile filepath \<Longrightarrow>
     build_if_watched isfile absroot re_findall returncode config filepath w = (Inr (), w)"
  by (simp add: build_if_watched_def)

text \<open>An event on a path that is not a regular file prints its line and does nothing else.\<close>

lemma on_deleted_not_file:
  "\<not> isfile src_path \<Longrightarrow>
     on_deleted isfile absroot re_findall returncode config src_path w =
       (Inr (), print_line (''file '' @ src_path @ '' deleted'') w)"
  by (simp add: on_deleted_def build_if_watched_not_file)

text \<open>
  C4. A delete event for a watched file is meant to trigger the build, as a create or a
  modify event does. \<^verbatim>\<open>on_deleted\<close> calls \<^verbatim>\<open>_build_if_watched\<close>, whose first test is
  \<^verbatim>\<open>os.path.isfile(filepath)\<close>: the deleted file is gone, the path is neither normalized
  nor classified, and nothing is built. With the same rules, \<^verbatim>\<open>on_modified\<close> on the same
  path, the file existing, runs the build command.
\<close>

theorem on_deleted_absent_file_no_build:
  "on_deleted (\<lambda>f. False) ''/proj'' findall_literal (\<lambda>c. 0) example_config ''/proj/src/app.js''
      \<lparr>stdout = [], spawned = []\<rparr>
     = (Inr (), \<lparr>stdout = [''file /proj/src/app.js deleted''], spawned = []\<rparr>)
   \<and>
   on_modified (\<lambda>f. True) ''/proj'' findall_literal (\<lambda>c. 0) example_config ''/proj/src/app.js''
      \<lparr>stdout = [], spawned = []\<rparr>
     = (Inr (), \<lparr>stdout = [''file /proj/src/app.js modified'', ''file src/app.js is watched'',
                            ''Running build npm run build''],
                  spawned = [Shell ''npm run build'']\<rparr>)"
  by (simp add: on_deleted_def on_modified_def build_if_watched_def print_line_def
      normalize_path_def is_watched_def findall_literal_def build_def build_command_def
      conf_get_def subprocess_run_def example_config_def example_parsed_def
      suffix_to_prefix sublist_Cons_right)

section \<open>The five commands\<close>

text \<open>
  C5, as stated, fails: the build command exiting with status 1 and the build command
  exiting with status 0 give the caller the same result, \<^verbatim>\<open>Building\<close>.
\<close>

theorem failed_build_same_result:
  "fst (trigger shlex_plain (\<lambda>c. 1) example_config Build \<lparr>stdout = [], spawned = []\<rparr>)
     = Inr ''Building'' \<and>
   fst (trigger shlex_plain (\<lambda>c. 0) example_config Build \<lparr>stdout = [], spawned = []\<rparr>)
     = Inr ''Building''"
  by (simp add: build_def build_command_def conf_get_def example_config_def example_parsed_def)

text \<open>
  C5, amended. For each of the five actions, with the five commands configured and the
  test, run and start commands split by \<^verbatim>\<open>shlex.split\<close>, the call returns the label of
  the action whatever the exit status of the child process: a non-zero status is not
  reported, the result is the one of a success, and no exception is raised.
\<close>

theorem trigger_ignores_exit_status:
  assumes "build_command cfg = Inr b" and "test_command cfg = Inr t"
    and "run_command cfg = Inr r" and "start_command cfg = Inr s"
    and "serve_command cfg = Inr sv"
    and "shlex_split t \<noteq> None" and "shlex_split r \<noteq> None" and "shlex_split s \<noteq> None"
  shows "fst (trigger shlex_split returncode cfg a w) =
           Inr (case a of Build \<Rightarrow> ''Building'' | Test \<Rightarrow> ''Testing'' | Run \<Rightarrow> ''Running''
                | Start \<Rightarrow> ''Starting'' | Serve \<Rightarrow> ''Serving'')"
  using assms
  by (cases a) (auto simp: build_def test_def run_def start_def serve_def Let_def)

theorem trigger_ignores_exit_status_witness:
  "fst (trigger shlex_plain (\<lambda>c. 2) example_config Test \<lparr>stdout = [], spawned = []\<rparr>)
     = Inr ''Testing''"
  using trigger_ignores_exit_status [of example_config "''npm run build''" "''npm test''"
      "''node index.js''" "''npm start''" "''''" shlex_plain "\<lambda>c. 2" Test
      "\<lparr>stdout = [], spawned = []\<rparr>"]
  by (simp add: build_command_def test_command_def run_command_def start_command_def
      serve_command_def conf_get_def example_config_def example_parsed_def shlex_plain_def)

text \<open>
  With its own command empty, each of \<^verbatim>\<open>build\<close>, \<^verbatim>\<open>test\<close>, \<^verbatim>\<open>run\<close> and \<^verbatim>\<open>start\<close> starts no
  process and returns its label.
\<close>

lemma unconfigured_no_spawn:
  "build_command cfg = Inr [] \<Longrightarrow>
     fst (trigger sp rc cfg Build w) = Inr ''Building'' \<and>
     spawned (snd (trigger sp rc cfg Build w)) = spawned w"
  "test_command cfg = Inr [] \<Longrightarrow>
     fst (trigger sp rc cfg Test w) = Inr ''Testing'' \<and>
     spawned (snd (trigger sp rc cfg Test w)) = spawned w"
  "run_command cfg = Inr [] \<Longrightarrow>
     fst (trigger sp rc cfg Run w) = Inr ''Running'' \<and>
     spawned (snd (trigger sp rc cfg Run w)) = spawned w"
  "start_command cfg = Inr [] \<Longrightarrow>
     fst (trigger sp rc cfg Start w) = Inr ''Starting'' \<and>
     spawned (snd (trigger sp rc cfg Start w)) = spawned w"
  by (simp_all add: build_def test_def run_def start_def print_line_def)

text \<open>
  C6. An action whose command is the empty string is meant to start no process and to
  return its label. \<^verbatim>\<open>serve\<close> tests \<^verbatim>\<open>config.run_command\<close>, not its own command: with an
  empty serve command and a run command, it hands the empty string to a shell.
\<close>

theorem serve_empty_command_spawns:
  \<open>serve_command example_config = Inr '''' \<and>
   trigger shlex_plain (\<lambda>c. 0) example_config Serve \<lparr>stdout = [], spawned = []\<rparr> =
     (Inr ''Serving'', \<lparr>stdout = [''Running "serve"''], spawned = [Shell '''']\<rparr>)\<close>
  by (simp add: serve_def serve_command_def run_command_def conf_get_def example_config_def
      example_parsed_def print_line_def subprocess_run_def)

text \<open>
  C9. With the run command and the serve command configured, \<^verbatim>\<open>serve\<close> returns
  \<^verbatim>\<open>Serving\<close>, and it runs the serve command exactly when the run command is not the
  empty string; whether the serve command is empty plays no part.
\<close>

theorem serve_guard_is_run_command:
  assumes "run_command cfg = Inr guard" and "serve_command cfg = Inr cmd"
  shows "fst (serve returncode cfg w) = Inr ''Serving'' \<and>
         spawned (snd (serve returncode cfg w)) =
           spawned w @ (if guard \<noteq> [] then [Shell cmd] else [])"
  using assms by (simp add: serve_def print_line_def subprocess_run_def)

theorem serve_guard_is_run_command_witness:
  "run_command example_config = Inr ''node index.js'' \<and>
   serve_command example_config = Inr '''' \<and>
   fst (serve (\<lambda>c. 0) example_config \<lparr>stdout = [], spawned = []\<rparr>) = Inr ''Serving'' \<and>
   spawned (snd (serve (\<lambda>c. 0) example_config \<lparr>stdout = [], spawned = []\<rparr>)) = [Shell '''']"
proof -
  have r: "run_command example_config = Inr ''node index.js''"
    by (simp add: run_command_def conf_get_def example_config_def example_parsed_def)
  have s: "serve_command example_config = Inr ''''"
    by (simp add: serve_command_def conf_get_def example_config_def example_parsed_def)
  from serve_guard_is_run_command [OF r s, of "\<lambda>c. 0" "\<lparr>stdout = [], spawned = []\<rparr>"] r s
  show ?thesis by simp
qed

section \<open>Construction of the configuration\<close>

text \<open>
  Construction succeeds exactly when both sections are there and the section of the
  commands has \<^verbatim>\<open>build\<close>, \<^verbatim>\<open>serve\<close>, \<^verbatim>\<open>start\<close> and \<^verbatim>\<open>test\<close>.
\<close>

lemma Configuration_init_Inr:
  "Configuration_init parsed = Inr c \<longleftrightarrow>
     (\<exists>sec. parsed ''commands'' = Some sec \<and> parsed ''server'' \<noteq> None \<and>
        sec ''build'' \<noteq> None \<and> sec ''serve'' \<noteq> None \<and> sec ''start'' \<noteq> None \<and>
        sec ''test'' \<noteq> None) \<and>
     c = \<lparr>conf = parsed, excluded_regex = [], excluded_extensions = [],
          included_extensions = [], excluded_files = [],
          excluded_folders = [''node_modules'']\<rparr>"
  by (auto simp: Configuration_init_def commands_def split: option.splits)

text \<open>
  C7. A configuration that lacks the key of one of the five commands is meant to fail
  at construction. The list \<^verbatim>\<open>_commands\<close> checked by the assertion leaves \<^verbatim>\<open>run\<close> out: a
  file with both sections and every command but \<^verbatim>\<open>run\<close> is accepted, and the key is
  missed only later, when \<^verbatim>\<open>config.run_command\<close> raises \<^verbatim>\<open>KeyError\<close>.
\<close>

theorem Configuration_init_accepts_missing_run:
  "Configuration_init parsed_without_run =
     Inr \<lparr>conf = parsed_without_run, excluded_regex = [], excluded_extensions = [],
          included_extensions = [], excluded_files = [],
          excluded_folders = [''node_modules'']\<rparr>
   \<and>
   run_command \<lparr>conf = parsed_without_run, excluded_regex = [], excluded_extensions = [],
          included_extensions = [], excluded_files = [],
          excluded_folders = [''node_modules'']\<rparr>
     = Inl (KeyError ''run'')"
  by (simp add: Configuration_init_def commands_def run_command_def conf_get_def
      parsed_without_run_def)

end
